theory Spec2Isabelle
  imports Main "HOL-Library.Sublist"
begin

section \<open>Values thrown and values serialised\<close>

text \<open>
  A thrown JavaScript value is modelled by its message: \<open>throw new Error("role is required")\<close>
  is \<open>Inl (Error ''role is required'')\<close>, and a function that may throw or reject
  returns \<open>error + 'a\<close>. An awaited promise is its settled result.
\<close>

datatype error = Error (message: string)

text \<open>
  The opaque \<open>output\<close> of a step is a JSON value. Numbers are the integers whose
  \<open>JSON.stringify\<close> rendering is plain decimal digits; an object lists its properties in
  the order JavaScript enumerates them. A property that is absent (\<open>undefined\<close>) is
  \<open>None\<close> of type \<open>json option\<close>; \<open>null\<close> is \<open>Some JNull\<close>.
\<close>

datatype json =
    JNull
  | JBool bool
  | JNumber int
  | JString string
  | JArray "json list"
  | JObject "(string \<times> json) list"

fun digits :: "nat \<Rightarrow> string" where
  "digits n = (if n < 10 then [char_of (48 + n)] else digits (n div 10) @ [char_of (48 + n mod 10)])"

definition showInt :: "int \<Rightarrow> string" where
  "showInt i = (if i < 0 then CHR ''-'' # digits (nat (- i)) else digits (nat i))"

definition hexDigit :: "nat \<Rightarrow> char" where
  "hexDigit n = (if n < 10 then char_of (48 + n) else char_of (87 + n))"

text \<open>The character escapes of \<open>JSON.stringify\<close> (QuoteJSONString).\<close>

definition quoteChar :: "char \<Rightarrow> string" where
  "quoteChar c =
     (if c = CHR 0x22 then [CHR 0x5C, CHR 0x22]
      else if c = CHR 0x5C then [CHR 0x5C, CHR 0x5C]
      else if c = CHR 0x08 then [CHR 0x5C, CHR ''b'']
      else if c = CHR 0x0C then [CHR 0x5C, CHR ''f'']
      else if c = CHR 0x0A then [CHR 0x5C, CHR ''n'']
      else if c = CHR 0x0D then [CHR 0x5C, CHR ''r'']
      else if c = CHR 0x09 then [CHR 0x5C, CHR ''t'']
      else if (of_char c :: nat) < 32
        then [CHR 0x5C, CHR ''u'', CHR ''0'', CHR ''0'',
              hexDigit (of_char c div 16), hexDigit (of_char c mod 16)]
      else [c])"

definition quoteString :: "string \<Rightarrow> string" where
  "quoteString s = CHR 0x22 # concat (map quoteChar s) @ [CHR 0x22]"

fun join :: "string \<Rightarrow> string list \<Rightarrow> string" where
  "join sep [] = []"
| "join sep [x] = x"
| "join sep (x # y # ys) = x @ sep @ join sep (y # ys)"

text \<open>\<open>JSON.stringify(value)\<close> with no replacer and no indentation.\<close>

fun JSON_stringify :: "json \<Rightarrow> string" where
  "JSON_stringify JNull = ''null''"
| "JSON_stringify (JBool b) = (if b then ''true'' else ''false'')"
| "JSON_stringify (JNumber n) = showInt n"
| "JSON_stringify (JString s) = quoteString s"
| "JSON_stringify (JArray xs) = ''['' @ join '','' (map JSON_stringify xs) @ '']''"
| "JSON_stringify (JObject kvs) =
     ''{'' @ join '','' (map (\<lambda>kv. quoteString (fst kv) @ '':'' @ JSON_stringify (snd kv)) kvs) @ ''}''"

section \<open>Data model\<close>

text \<open>
  Modelled from the spec: \<open>OpenAIChatMessage\<close> is declared outside the sources. A message
  has a role, one of \<open>system\<close>, \<open>user\<close> and \<open>assistant\<close>, and a content.
\<close>

datatype chatRole = system | user | assistant

record message =
  role :: chatRole
  content :: string

text \<open>
  Modelled from the spec: the declarations of \<open>Step\<close> and of its state are not among the
  sources. A step has a \<open>type\<close> tag, an optional \<open>generatedText\<close> and a \<open>state\<close> that is
  \<open>failed {summary}\<close> or \<open>succeeded {output, summary}\<close>, the output possibly absent.
\<close>

datatype stepState =
    failed (summary: string)
  | succeeded "json option" (summary: string)

record step =
  stepType :: string
  generatedText :: "string option"
  state :: stepState

text \<open>
  Modelled from the spec: \<open>NoopStep\<close> and \<open>ErrorStep\<close> are classes of the repository
  that are not among the sources. A thought is a succeeded step with its output absent;
  an error step is a failed step of type \<open>error\<close> whose summary is the captured failure.
\<close>

definition NoopStep :: "string \<Rightarrow> string \<Rightarrow> string \<Rightarrow> step" where
  "NoopStep type text summ =
     \<lparr>stepType = type, generatedText = Some text, state = succeeded None summ\<rparr>"

definition ErrorStep :: "string \<Rightarrow> error \<Rightarrow> step" where
  "ErrorStep text err =
     \<lparr>stepType = ''error'', generatedText = Some text, state = failed (message err)\<rparr>"

text \<open>
  Modelled from the spec: \<open>AgentRun\<close>, \<open>ActionRegistry\<close>, the action handlers and
  \<open>ResultFormatter\<close> are declared outside the sources. Their members are the ones the
  generator uses, typed as the external interfaces of the specification give them. A run
  has its instructions and, possibly, an observer, whose hook invocations are recorded in
  the trace of \<open>generateNextStep\<close>.
\<close>

datatype observer = Observer

record agentRun =
  instructions :: string
  observer :: "observer option"

text \<open>The record \<open>format.parse\<close> returns: \<open>action\<close>, \<open>_freeText\<close> and the other named fields.\<close>

record actionParameters =
  action :: "string option"
  freeText :: string
  parameters :: "(string \<times> json) list"

record actionHandler =
  createStep :: "string \<Rightarrow> actionParameters \<Rightarrow> error + step"

record actionRegistry =
  getAvailableActionInstructions :: string
  parse :: "string \<Rightarrow> error + actionParameters"
  getAction :: "string \<Rightarrow> error + actionHandler"

text \<open>
  A result formatter: \<open>outputSchema\<close> is the parse of its zod schema (the parsed value,
  or the validation error it throws), \<open>formatResult\<close> renders a summary and a parsed output.
\<close>

record resultFormatter =
  outputSchema :: "json option \<Rightarrow> error + json option"
  formatResult :: "string \<Rightarrow> json option \<Rightarrow> string"

text \<open>
  Modelled from the spec: \<open>ResultFormatterRegistry\<close> is not among the sources. It maps a
  step type to its formatter, if one is registered, and a new registry is empty.
\<close>

type_synonym resultFormatterRegistry = "string \<rightharpoonup> resultFormatter"

definition newResultFormatterRegistry :: resultFormatterRegistry where
  "newResultFormatterRegistry = Map.empty"

definition getResultFormatter :: "resultFormatterRegistry \<Rightarrow> string \<Rightarrow> resultFormatter option" where
  "getResultFormatter reg type = reg type"

text \<open>
  The interface \<open>ChatTextGenerator\<close>: \<open>generateText\<close> settles with the generated text or
  rejects. \<open>generateNextStep\<close> passes it the messages and the run.
\<close>

record chatTextGenerator =
  generateText :: "message list \<Rightarrow> agentRun \<Rightarrow> error + string"

section \<open>BasicNextStepGenerator\<close>

text \<open>The fields of the class; \<open>gRole\<close> is its field \<open>role\<close>.\<close>

record basicNextStepGenerator =
  gRole :: string
  constraints :: string
  actionRegistry :: actionRegistry
  textGenerator :: chatTextGenerator
  resultFormatterRegistry :: resultFormatterRegistry

text \<open>
  The constructor. An argument that is \<open>null\<close> or \<open>undefined\<close> is \<open>None\<close>: the checks
  \<open>x == null\<close> hold for both. The default of \<open>resultFormatterRegistry\<close> replaces an omitted
  argument.
\<close>

definition constructor ::
  "string option \<Rightarrow> string option \<Rightarrow> actionRegistry option \<Rightarrow> chatTextGenerator option \<Rightarrow>
   resultFormatterRegistry option \<Rightarrow> error + basicNextStepGenerator" where
  "constructor role' constraints' actionRegistry' textGenerator' resultFormatterRegistry' =
     (let rfr = (case resultFormatterRegistry' of None \<Rightarrow> newResultFormatterRegistry | Some r \<Rightarrow> r)
      in case role' of None \<Rightarrow> Inl (Error ''role is required'')
         | Some r \<Rightarrow>
      (case constraints' of None \<Rightarrow> Inl (Error ''constraints is required'')
         | Some c \<Rightarrow>
      (case actionRegistry' of None \<Rightarrow> Inl (Error ''actionRegistry is required'')
         | Some a \<Rightarrow>
      (case textGenerator' of None \<Rightarrow> Inl (Error ''textGenerator is required'')
         | Some t \<Rightarrow>
      Inr \<lparr>gRole = r, constraints = c, actionRegistry = a, textGenerator = t,
           resultFormatterRegistry = rfr\<rparr>))))"

text \<open>
  \<open>formatOutput\<close>: the state object is parsed by the schema
  \<open>{output: outputSchema, summary: string}\<close>; the summary of a state is a string, so only
  the output can be rejected. A failed state has no \<open>output\<close> property.
\<close>

definition formatOutput :: "resultFormatter \<Rightarrow> stepState \<Rightarrow> error + string" where
  "formatOutput rf result =
     (case outputSchema rf (case result of failed s \<Rightarrow> None | succeeded out s \<Rightarrow> out) of
        Inl e \<Rightarrow> Inl e
      | Inr parsedOutput \<Rightarrow> Inr (formatResult rf (summary result) parsedOutput))"

text \<open>The \<open>switch\<close> of the loop body: the \<open>content\<close> derived from a step's state.\<close>

definition stepContent :: "basicNextStepGenerator \<Rightarrow> step \<Rightarrow> error + string option" where
  "stepContent g st =
     (case state st of
        failed summ \<Rightarrow> Inr (Some (''ERROR:\<newline>'' @ summ))
      | succeeded out summ \<Rightarrow>
          (case out of
             None \<Rightarrow> Inr None
           | Some JNull \<Rightarrow> Inr None
           | Some v \<Rightarrow>
               (case getResultFormatter (resultFormatterRegistry g) (stepType st) of
                  None \<Rightarrow> Inr (Some (JSON_stringify v))
                | Some rf \<Rightarrow>
                    (case formatOutput rf (state st) of
                       Inl e \<Rightarrow> Inl e
                     | Inr c \<Rightarrow> Inr (Some c)))))"

text \<open>The \<open>for\<close> loop over the completed steps, pushing onto \<open>messages\<close>.\<close>

fun pushSteps :: "basicNextStepGenerator \<Rightarrow> step list \<Rightarrow> message list \<Rightarrow> error + message list" where
  "pushSteps g [] messages = Inr messages"
| "pushSteps g (st # rest) messages =
     (let messages1 = (case generatedText st of
                         None \<Rightarrow> messages
                       | Some text \<Rightarrow> messages @ [\<lparr>role = assistant, content = text\<rparr>])
      in case stepContent g st of
           Inl e \<Rightarrow> Inl e
         | Inr None \<Rightarrow> pushSteps g rest messages1
         | Inr (Some c) \<Rightarrow> pushSteps g rest (messages1 @ [\<lparr>role = system, content = c\<rparr>]))"

definition initialMessages :: "basicNextStepGenerator \<Rightarrow> agentRun \<Rightarrow> message list" where
  "initialMessages g run =
     [\<lparr>role = system,
       content = ''## ROLE\<newline>'' @ gRole g @ ''\<newline>\<newline>## CONSTRAINTS\<newline>'' @ constraints g
         @ '';\<newline>\<newline>## AVAILABLE ACTIONS\<newline>'' @ getAvailableActionInstructions (actionRegistry g)\<rparr>,
      \<lparr>role = user, content = ''## TASK\<newline>'' @ instructions run\<rparr>]"

definition generateMessages ::
  "basicNextStepGenerator \<Rightarrow> step list \<Rightarrow> agentRun \<Rightarrow> error + message list" where
  "generateMessages g completedSteps run = pushSteps g completedSteps (initialMessages g run)"

text \<open>
  \<open>generateNextStep\<close>. Besides its result it returns the trace of what it did to the
  outside, in order: the observer hooks it invoked and its call of the text generator.
  \<open>run.observer?.hook(...)\<close> invokes the hook when an observer is attached.
\<close>

datatype event =
    onStepGenerationStarted agentRun "message list"
  | generateTextCalled "message list" agentRun
  | onStepGenerationFinished agentRun string step

definition generateNextStep ::
  "basicNextStepGenerator \<Rightarrow> step list \<Rightarrow> agentRun \<Rightarrow> (error + step) \<times> event list" where
  "generateNextStep g completedSteps run =
     (case generateMessages g completedSteps run of
        Inl e \<Rightarrow> (Inl e, [])
      | Inr messages \<Rightarrow>
          (let started = (case observer run of
                            None \<Rightarrow> []
                          | Some obs \<Rightarrow> [onStepGenerationStarted run messages]);
               called = started @ [generateTextCalled messages run]
           in case generateText (textGenerator g) messages run of
                Inl e \<Rightarrow> (Inl e, called)
              | Inr text \<Rightarrow>
                  (case parse (actionRegistry g) text of
                     Inl e \<Rightarrow> (Inl e, called)
                   | Inr actionParams \<Rightarrow>
                       (let st = (case action actionParams of
                                    None \<Rightarrow> NoopStep ''thought'' text (freeText actionParams)
                                  | Some a \<Rightarrow>
                                      (case getAction (actionRegistry g) a of
                                         Inl err \<Rightarrow> ErrorStep text err
                                       | Inr act \<Rightarrow>
                                           (case createStep act text actionParams of
                                              Inl err \<Rightarrow> ErrorStep text err
                                            | Inr s \<Rightarrow> s)))
                        in (Inr st,
                            called @ (case observer run of
                                        None \<Rightarrow> []
                                      | Some obs \<Rightarrow> [onStepGenerationFinished run text st]))))))"

section \<open>generateMessages over an explicit store\<close>

text \<open>
  The objects \<open>generateMessages\<close> can reach: the array passed as \<open>completedSteps\<close> with
  the steps in it, the run, and the message arrays allocated so far, an array's address
  being its index. The array literal allocates a new array; \<open>messages.push\<close> is the only
  write of the method.
\<close>

record store =
  completedStepsArray :: "step list"
  runObject :: agentRun
  messageArrays :: "message list list"

definition allocate :: "message list \<Rightarrow> store \<Rightarrow> nat \<times> store" where
  "allocate ms \<sigma> = (length (messageArrays \<sigma>), \<sigma>\<lparr>messageArrays := messageArrays \<sigma> @ [ms]\<rparr>)"

definition push :: "nat \<Rightarrow> message \<Rightarrow> store \<Rightarrow> store" where
  "push a m \<sigma> = \<sigma>\<lparr>messageArrays := (messageArrays \<sigma>)[a := messageArrays \<sigma> ! a @ [m]]\<rparr>"

text \<open>
  The loop, by the index of the array iterator: it ends when the index reaches the
  length the array has then. The result is the error thrown, if any.
\<close>

function pushStepsAt :: "basicNextStepGenerator \<Rightarrow> nat \<Rightarrow> nat \<Rightarrow> store \<Rightarrow> error option \<times> store" where
  "pushStepsAt g a i \<sigma> =
     (if i < length (completedStepsArray \<sigma>) then
        (let st = completedStepsArray \<sigma> ! i;
             \<sigma>1 = (case generatedText st of
                     None \<Rightarrow> \<sigma>
                   | Some text \<Rightarrow> push a \<lparr>role = assistant, content = text\<rparr> \<sigma>)
         in case stepContent g st of
              Inl e \<Rightarrow> (Some e, \<sigma>1)
            | Inr None \<Rightarrow> pushStepsAt g a (Suc i) \<sigma>1
            | Inr (Some c) \<Rightarrow> pushStepsAt g a (Suc i) (push a \<lparr>role = system, content = c\<rparr> \<sigma>1))
      else (None, \<sigma>))"
  by pat_completeness auto
termination
  by (relation "measure (\<lambda>(g, a, i, \<sigma>). length (completedStepsArray \<sigma>) - i)")
     (auto simp: push_def split: option.splits)

definition generateMessagesAt :: "basicNextStepGenerator \<Rightarrow> store \<Rightarrow> (error + nat) \<times> store" where
  "generateMessagesAt g \<sigma> =
     (case allocate (initialMessages g (runObject \<sigma>)) \<sigma> of
        (a, \<sigma>1) \<Rightarrow>
          (case pushStepsAt g a 0 \<sigma>1 of
             (Some e, \<sigma>2) \<Rightarrow> (Inl e, \<sigma>2)
           | (None, \<sigma>2) \<Rightarrow> (Inr a, \<sigma>2)))"

section \<open>Observations on transcripts and traces\<close>

text \<open>
  The serialisation the specification names for a succeeded step without a formatter:
  the default structural serialisation of the pair \<open>{summary, output}\<close>.
\<close>

definition summaryOutputSerialization :: "string \<Rightarrow> json \<Rightarrow> string" where
  "summaryOutputSerialization summ out =
     JSON_stringify (JObject [(''summary'', JString summ), (''output'', out)])"

text \<open>How often a trace invokes \<open>onStepGenerationFinished\<close>.\<close>

fun isFinished :: "event \<Rightarrow> bool" where
  "isFinished (onStepGenerationFinished run text st) = True"
| "isFinished ev = False"

definition finishedCalls :: "event list \<Rightarrow> nat" where
  "finishedCalls trace = length (filter isFinished trace)"

section \<open>A small configuration\<close>

text \<open>
  One registry with the actions \<open>search\<close> and \<open>broken\<close>, whose handler fails; a parser that
  reads the whole text as the action identifier for \<open>search\<close>, \<open>broken\<close> and \<open>fly\<close>, rejects
  \<open>garbage\<close> and takes any other text as free text; a formatter for \<open>search\<close> results that
  accepts arrays only; a text generator that settles with a fixed reply.
\<close>

definition exSearchAction :: actionHandler where
  "exSearchAction = \<lparr>createStep = (\<lambda>text input.
      Inr \<lparr>stepType = ''search'', generatedText = Some text,
           state = succeeded (Some (JArray [JString ''X''])) ''searched''\<rparr>)\<rparr>"

definition exBrokenAction :: actionHandler where
  "exBrokenAction = \<lparr>createStep = (\<lambda>text input. Inl (Error ''boom''))\<rparr>"

definition exParse :: "string \<Rightarrow> error + actionParameters" where
  "exParse text =
     (if text = ''garbage'' then Inl (Error ''unparseable'')
      else if text = ''search'' \<or> text = ''broken'' \<or> text = ''fly''
        then Inr \<lparr>action = Some text, freeText = [], parameters = []\<rparr>
      else Inr \<lparr>action = None, freeText = text, parameters = []\<rparr>)"

definition exRegistry :: actionRegistry where
  "exRegistry = \<lparr>getAvailableActionInstructions = ''search: find pages'',
     parse = exParse,
     getAction = (\<lambda>a. if a = ''search'' then Inr exSearchAction
                        else if a = ''broken'' then Inr exBrokenAction
                        else Inl (Error ''unknown action''))\<rparr>"

definition exFormatter :: resultFormatter where
  "exFormatter = \<lparr>outputSchema = (\<lambda>out. case out of Some (JArray xs) \<Rightarrow> Inr out
                                               | _ \<Rightarrow> Inl (Error ''invalid output'')),
     formatResult = (\<lambda>summ out. summ @ '' (formatted)'')\<rparr>"

definition exGenerator :: "(error + string) \<Rightarrow> resultFormatterRegistry \<Rightarrow> basicNextStepGenerator" where
  "exGenerator reply formatters =
     \<lparr>gRole = ''Researcher'', constraints = ''Be concise'', actionRegistry = exRegistry,
      textGenerator = \<lparr>generateText = (\<lambda>messages run. reply)\<rparr>,
      resultFormatterRegistry = formatters\<rparr>"

definition exRun :: agentRun where
  "exRun = \<lparr>instructions = ''Find X'', observer = Some Observer\<rparr>"




definition exStep :: step where
  "exStep = \<lparr>stepType = ''search'', generatedText = Some ''search'',
             state = succeeded (Some (JArray [JNumber 42])) ''done''\<rparr>"

definition exFailedStep :: step where
  "exFailedStep = \<lparr>stepType = ''error'', generatedText = None, state = failed ''unknown action''\<rparr>"

definition exFormatters :: resultFormatterRegistry where
  "exFormatters = [''search'' \<mapsto> exFormatter]"

definition exPlainStep :: step where
  "exPlainStep = \<lparr>stepType = ''calculate'', generatedText = None,
                  state = succeeded (Some (JArray [JNumber 42])) ''done''\<rparr>"

definition exInvalidStep :: step where
  "exInvalidStep = \<lparr>stepType = ''search'', generatedText = Some ''search'',
                    state = succeeded (Some (JString ''oops'')) ''done''\<rparr>"

definition exStore :: store where
  "exStore = \<lparr>completedStepsArray = [exStep, exFailedStep], runObject = exRun,
              messageArrays = [[\<lparr>role = user, content = ''earlier''\<rparr>]]\<rparr>"

section \<open>The loop, step by step\<close>

lemma pushSteps_append:
  "pushSteps g (xs @ ys) ms = (case pushSteps g xs ms of Inl e \<Rightarrow> Inl e | Inr ms' \<Rightarrow> pushSteps g ys ms')"
  by (induction xs arbitrary: ms) (auto simp: Let_def split: sum.splits option.splits)

lemma pushSteps_prefix:
  "pushSteps g xs ms = Inr r \<Longrightarrow> prefix ms r"
  by (induction xs arbitrary: ms)
     (auto simp: Let_def split: sum.splits option.splits dest: append_prefixD)

lemma generateMessages_step:
  "generateMessages g (before @ st # rest) run =
     (case generateMessages g before run of
        Inl e \<Rightarrow> Inl e
      | Inr ms \<Rightarrow> pushSteps g (st # rest) ms)"
  by (simp add: generateMessages_def pushSteps_append)


lemma push_simps:
  "completedStepsArray (push a m \<sigma>) = completedStepsArray \<sigma>"
  "runObject (push a m \<sigma>) = runObject \<sigma>"
  "length (messageArrays (push a m \<sigma>)) = length (messageArrays \<sigma>)"
  "b \<noteq> a \<Longrightarrow> messageArrays (push a m \<sigma>) ! b = messageArrays \<sigma> ! b"
  "a < length (messageArrays \<sigma>) \<Longrightarrow> messageArrays (push a m \<sigma>) ! a = messageArrays \<sigma> ! a @ [m]"
  by (simp_all add: push_def)

lemma pushStepsAt_frame:
  "a < length (messageArrays \<sigma>) \<Longrightarrow> pushStepsAt g a i \<sigma> = (r, \<sigma>') \<Longrightarrow>
     completedStepsArray \<sigma>' = completedStepsArray \<sigma> \<and> runObject \<sigma>' = runObject \<sigma> \<and>
     length (messageArrays \<sigma>') = length (messageArrays \<sigma>) \<and>
     (\<forall>b. b \<noteq> a \<longrightarrow> messageArrays \<sigma>' ! b = messageArrays \<sigma> ! b) \<and>
     (case r of
        Some e \<Rightarrow> pushSteps g (drop i (completedStepsArray \<sigma>)) (messageArrays \<sigma> ! a) = Inl e
      | None \<Rightarrow> pushSteps g (drop i (completedStepsArray \<sigma>)) (messageArrays \<sigma> ! a)
                 = Inr (messageArrays \<sigma>' ! a))"
proof (induction g a i \<sigma> arbitrary: r \<sigma>' rule: pushStepsAt.induct)
  case (1 g a i \<sigma>)
  show ?case
  proof (cases "i < length (completedStepsArray \<sigma>)")
    case False
    with "1.prems" show ?thesis by (simp split: option.splits)
  next
    case True
    define st where "st = completedStepsArray \<sigma> ! i"
    define \<sigma>1 where "\<sigma>1 = (case generatedText st of None \<Rightarrow> \<sigma>
        | Some text \<Rightarrow> push a \<lparr>role = assistant, content = text\<rparr> \<sigma>)"
    define ms1 where "ms1 = (case generatedText st of None \<Rightarrow> messageArrays \<sigma> ! a
        | Some text \<Rightarrow> messageArrays \<sigma> ! a @ [\<lparr>role = assistant, content = text\<rparr>])"
    have dr: "drop i (completedStepsArray \<sigma>) = st # drop (Suc i) (completedStepsArray \<sigma>)"
      using True by (simp add: st_def Cons_nth_drop_Suc)
    have s1: "completedStepsArray \<sigma>1 = completedStepsArray \<sigma>" "runObject \<sigma>1 = runObject \<sigma>"
      "length (messageArrays \<sigma>1) = length (messageArrays \<sigma>)"
      "\<And>b. b \<noteq> a \<Longrightarrow> messageArrays \<sigma>1 ! b = messageArrays \<sigma> ! b"
      "messageArrays \<sigma>1 ! a = ms1"
      using "1.prems"(1) by (auto simp: \<sigma>1_def ms1_def push_simps split: option.splits)
    have a1: "a < length (messageArrays \<sigma>1)" using s1 "1.prems"(1) by simp
    have unf: "pushSteps g (drop i (completedStepsArray \<sigma>)) (messageArrays \<sigma> ! a) =
        (case stepContent g st of
           Inl e \<Rightarrow> Inl e
         | Inr None \<Rightarrow> pushSteps g (drop (Suc i) (completedStepsArray \<sigma>)) ms1
         | Inr (Some c) \<Rightarrow> pushSteps g (drop (Suc i) (completedStepsArray \<sigma>))
                             (ms1 @ [\<lparr>role = system, content = c\<rparr>]))"
      unfolding dr ms1_def by (simp add: Let_def split: sum.splits option.splits)
    show ?thesis
    proof (cases "stepContent g st")
      case (Inl e)
      with True "1.prems"(2) have "r = Some e" "\<sigma>' = \<sigma>1"
        by (simp_all add: st_def[symmetric] \<sigma>1_def[symmetric] Let_def)
      with Inl s1 unf show ?thesis by simp
    next
      case (Inr c)
      show ?thesis
      proof (cases c)
        case None
        with Inr True "1.prems"(2) have run: "pushStepsAt g a (Suc i) \<sigma>1 = (r, \<sigma>')"
          by (simp add: st_def[symmetric] \<sigma>1_def[symmetric] Let_def)
        from "1.IH"(1)[OF True st_def \<sigma>1_def Inr None a1 run] s1 Inr None unf
        show ?thesis by (simp split: option.splits)
      next
        case (Some body)
        define \<sigma>2 where "\<sigma>2 = push a \<lparr>role = system, content = body\<rparr> \<sigma>1"
        with Some Inr True "1.prems"(2) have run: "pushStepsAt g a (Suc i) \<sigma>2 = (r, \<sigma>')"
          by (simp add: st_def[symmetric] \<sigma>1_def[symmetric] Let_def)
        have s2: "completedStepsArray \<sigma>2 = completedStepsArray \<sigma>" "runObject \<sigma>2 = runObject \<sigma>"
          "length (messageArrays \<sigma>2) = length (messageArrays \<sigma>)"
          "\<And>b. b \<noteq> a \<Longrightarrow> messageArrays \<sigma>2 ! b = messageArrays \<sigma> ! b"
          "messageArrays \<sigma>2 ! a = ms1 @ [\<lparr>role = system, content = body\<rparr>]"
          using s1 a1 by (simp_all add: \<sigma>2_def push_simps)
        have a2: "a < length (messageArrays \<sigma>2)" using s2 "1.prems"(1) by simp
        from "1.IH"(2)[OF True st_def \<sigma>1_def Inr Some a2[unfolded \<sigma>2_def] run[unfolded \<sigma>2_def]]
          s2 Inr Some unf
        show ?thesis by (simp add: \<sigma>2_def[symmetric] split: option.splits)
      qed
    qed
  qed
qed

section \<open>Transcript construction\<close>

text \<open>
  Claim C4. Whenever \<open>generateMessages\<close> builds a transcript, its first two messages are,
  in order, a system message whose content holds the role text, the constraints text and
  the registry's action instructions (under the headings of the template, the constraints
  followed by a semicolon), and a user message whose content is the heading \<open>## TASK\<close>, a
  line break and the run's instructions verbatim.
\<close>

theorem generateMessages_first_two:
  assumes "generateMessages g completedSteps run = Inr msgs"
  shows "\<exists>sys usr rest. msgs = sys # usr # rest \<and>
           role sys = system \<and>
           content sys = ''## ROLE\<newline>'' @ gRole g @ ''\<newline>\<newline>## CONSTRAINTS\<newline>'' @ constraints g
             @ '';\<newline>\<newline>## AVAILABLE ACTIONS\<newline>'' @ getAvailableActionInstructions (actionRegistry g) \<and>
           sublist (gRole g) (content sys) \<and>
           sublist (constraints g) (content sys) \<and>
           sublist (getAvailableActionInstructions (actionRegistry g)) (content sys) \<and>
           role usr = user \<and>
           content usr = ''## TASK\<newline>'' @ instructions run"
proof -
  from assms have "prefix (initialMessages g run) msgs"
    unfolding generateMessages_def by (rule pushSteps_prefix)
  then obtain rest where msgs: "msgs = initialMessages g run @ rest"
    by (auto simp: prefix_def)
  define c where "c = ''## ROLE\<newline>'' @ gRole g @ ''\<newline>\<newline>## CONSTRAINTS\<newline>'' @ constraints g
             @ '';\<newline>\<newline>## AVAILABLE ACTIONS\<newline>'' @ getAvailableActionInstructions (actionRegistry g)"
  have 1: "sublist (gRole g) c"
    unfolding c_def sublist_def by blast
  have 2: "sublist (constraints g) c"
    unfolding c_def sublist_def by (metis append.assoc)
  have 3: "sublist (getAvailableActionInstructions (actionRegistry g)) c"
    unfolding c_def sublist_def by (metis append.assoc append_Nil2)
  show ?thesis
    using msgs 1 2 3 unfolding c_def initialMessages_def by simp
qed

theorem generateMessages_first_two_witness:
  "generateMessages (exGenerator (Inr ''search'') exFormatters) [exStep, exFailedStep] exRun =
     Inr [\<lparr>role = system, content = ''## ROLE\<newline>Researcher\<newline>\<newline>## CONSTRAINTS\<newline>Be concise;\<newline>\<newline>## AVAILABLE ACTIONS\<newline>search: find pages''\<rparr>,
          \<lparr>role = user, content = ''## TASK\<newline>Find X''\<rparr>,
          \<lparr>role = assistant, content = ''search''\<rparr>,
          \<lparr>role = system, content = ''done (formatted)''\<rparr>,
          \<lparr>role = system, content = ''ERROR:\<newline>unknown action''\<rparr>] \<and>
   sublist ''Researcher'' ''## ROLE\<newline>Researcher\<newline>\<newline>## CONSTRAINTS\<newline>Be concise;\<newline>\<newline>## AVAILABLE ACTIONS\<newline>search: find pages''"
proof -
  have h: "generateMessages (exGenerator (Inr ''search'') exFormatters) [exStep, exFailedStep] exRun =
     Inr [\<lparr>role = system, content = ''## ROLE\<newline>Researcher\<newline>\<newline>## CONSTRAINTS\<newline>Be concise;\<newline>\<newline>## AVAILABLE ACTIONS\<newline>search: find pages''\<rparr>,
          \<lparr>role = user, content = ''## TASK\<newline>Find X''\<rparr>,
          \<lparr>role = assistant, content = ''search''\<rparr>,
          \<lparr>role = system, content = ''done (formatted)''\<rparr>,
          \<lparr>role = system, content = ''ERROR:\<newline>unknown action''\<rparr>]"
    by code_simp
  have g: "gRole (exGenerator (Inr ''search'') exFormatters) = ''Researcher''"
    by (simp add: exGenerator_def)
  from generateMessages_first_two[OF h] h g show ?thesis
    by auto
qed

text \<open>
  Claim C5. A completed step with state \<open>failed {summary: S}\<close> and no generated text
  contributes exactly one message, the system message \<open>ERROR:\<close>, line break, \<open>S\<close>: the
  transcript of a history that ends in this step is the transcript of the earlier steps
  with this one message appended, and in any position the loop goes on from there.
\<close>

theorem generateMessages_failed_step:
  assumes "state st = failed S" and "generatedText st = None"
  shows "generateMessages g (before @ [st]) run =
           (case generateMessages g before run of
              Inl e \<Rightarrow> Inl e
            | Inr ms \<Rightarrow> Inr (ms @ [\<lparr>role = system, content = ''ERROR:\<newline>'' @ S\<rparr>])) \<and>
         generateMessages g (before @ st # rest) run =
           (case generateMessages g before run of
              Inl e \<Rightarrow> Inl e
            | Inr ms \<Rightarrow> pushSteps g rest (ms @ [\<lparr>role = system, content = ''ERROR:\<newline>'' @ S\<rparr>]))"
  using assms
  by (simp add: generateMessages_step stepContent_def split: sum.splits)

theorem generateMessages_failed_step_witness:
  "state exFailedStep = failed ''unknown action'' \<and> generatedText exFailedStep = None \<and>
   generateMessages (exGenerator (Inr ''search'') exFormatters) [exFailedStep] exRun =
     Inr [\<lparr>role = system, content = ''## ROLE\<newline>Researcher\<newline>\<newline>## CONSTRAINTS\<newline>Be concise;\<newline>\<newline>## AVAILABLE ACTIONS\<newline>search: find pages''\<rparr>,
          \<lparr>role = user, content = ''## TASK\<newline>Find X''\<rparr>,
          \<lparr>role = system, content = ''ERROR:\<newline>unknown action''\<rparr>]"
proof -
  have h1: "state exFailedStep = failed ''unknown action''" by (simp add: exFailedStep_def)
  have h2: "generatedText exFailedStep = None" by (simp add: exFailedStep_def)
  have b: "generateMessages (exGenerator (Inr ''search'') exFormatters) [] exRun =
     Inr [\<lparr>role = system, content = ''## ROLE\<newline>Researcher\<newline>\<newline>## CONSTRAINTS\<newline>Be concise;\<newline>\<newline>## AVAILABLE ACTIONS\<newline>search: find pages''\<rparr>,
          \<lparr>role = user, content = ''## TASK\<newline>Find X''\<rparr>]"
    by code_simp
  from generateMessages_failed_step[OF h1 h2, where g="exGenerator (Inr ''search'') exFormatters"
      and before="[]" and rest="[]" and run=exRun]
    h1 h2 b show ?thesis by simp
qed

text \<open>
  Claim C2, as the specification states it, fails: for a succeeded step with output
  \<open>[42]\<close>, summary \<open>done\<close> and no registered formatter, the system message is \<open>[42]\<close>,
  not the serialisation of the pair of summary and output.
\<close>

theorem generateMessages_default_serialization_counterexample:
  "state exPlainStep = succeeded (Some (JArray [JNumber 42])) ''done'' \<and>
   getResultFormatter (resultFormatterRegistry (exGenerator (Inr ''search'') exFormatters))
     (stepType exPlainStep) = None \<and>
   generateMessages (exGenerator (Inr ''search'') exFormatters) [exPlainStep] exRun =
     Inr (initialMessages (exGenerator (Inr ''search'') exFormatters) exRun @
          [\<lparr>role = system, content = ''[42]''\<rparr>]) \<and>
   summaryOutputSerialization ''done'' (JArray [JNumber 42]) =
     ''{'' @ [CHR 0x22] @ ''summary'' @ [CHR 0x22] @ '':'' @ [CHR 0x22] @ ''done'' @ [CHR 0x22] @ '','' @ [CHR 0x22] @ ''output'' @ [CHR 0x22] @ '':[42]}'' \<and>
   generateMessages (exGenerator (Inr ''search'') exFormatters) [exPlainStep] exRun \<noteq>
     Inr (initialMessages (exGenerator (Inr ''search'') exFormatters) exRun @
          [\<lparr>role = system,
            content = summaryOutputSerialization ''done'' (JArray [JNumber 42])\<rparr>])"
  by code_simp

text \<open>
  Claim C2, amended. For a succeeded step with a present (non-null) output whose type has no
  registered formatter, the system message contributed is \<open>JSON.stringify\<close> of the output
  alone; the summary is not part of it. It follows the assistant message of the step's
  generated text, if the step has one.
\<close>

theorem generateMessages_default_serialization:
  assumes "state st = succeeded (Some v) summ" and "v \<noteq> JNull"
    and "getResultFormatter (resultFormatterRegistry g) (stepType st) = None"
  shows "generateMessages g (before @ st # rest) run =
           (case generateMessages g before run of
              Inl e \<Rightarrow> Inl e
            | Inr ms \<Rightarrow>
                pushSteps g rest
                  ((case generatedText st of
                      None \<Rightarrow> ms
                    | Some text \<Rightarrow> ms @ [\<lparr>role = assistant, content = text\<rparr>])
                   @ [\<lparr>role = system, content = JSON_stringify v\<rparr>]))"
  using assms
  by (cases v) (simp_all add: generateMessages_step stepContent_def split: sum.splits)

theorem generateMessages_default_serialization_witness:
  "state exPlainStep = succeeded (Some (JArray [JNumber 42])) ''done'' \<and>
   JArray [JNumber 42] \<noteq> JNull \<and>
   getResultFormatter (resultFormatterRegistry (exGenerator (Inr ''search'') exFormatters))
     (stepType exPlainStep) = None \<and>
   generateMessages (exGenerator (Inr ''search'') exFormatters) [exPlainStep] exRun =
     Inr (initialMessages (exGenerator (Inr ''search'') exFormatters) exRun @
          [\<lparr>role = system, content = ''[42]''\<rparr>])"
proof -
  have h1: "state exPlainStep = succeeded (Some (JArray [JNumber 42])) ''done''"
    by (simp add: exPlainStep_def)
  have h2: "JArray [JNumber 42] \<noteq> JNull" by simp
  have h3: "getResultFormatter (resultFormatterRegistry (exGenerator (Inr ''search'') exFormatters))
     (stepType exPlainStep) = None"
    by (simp add: getResultFormatter_def exGenerator_def exFormatters_def exPlainStep_def)
  have t: "generatedText exPlainStep = None" by (simp add: exPlainStep_def)
  have j: "JSON_stringify (JArray [JNumber 42]) = ''[42]''" by code_simp
  from generateMessages_default_serialization[OF h1 h2 h3, where before="[]" and rest="[]" and run=exRun] h1 h2 h3 t j
  show ?thesis by (simp add: generateMessages_def)
qed

text \<open>
  Claim C7. For a succeeded step with a present output whose type has a registered
  formatter, the output is parsed by the formatter's schema first. If the schema accepts it,
  the system message contributed is \<open>formatResult\<close> of the summary and the parsed output. If
  the schema rejects it, the validation error leaves \<open>generateMessages\<close>, nothing is
  rendered for the step, and \<open>generateNextStep\<close> fails with the same error before any hook
  or model call: the error is not turned into an error step.
\<close>

theorem generateMessages_formatted_step:
  assumes "state st = succeeded (Some v) summ" and "v \<noteq> JNull"
    and "getResultFormatter (resultFormatterRegistry g) (stepType st) = Some rf"
  shows "(\<forall>parsed. outputSchema rf (Some v) = Inr parsed \<longrightarrow>
           generateMessages g (before @ st # rest) run =
             (case generateMessages g before run of
                Inl e \<Rightarrow> Inl e
              | Inr ms \<Rightarrow>
                  pushSteps g rest
                    ((case generatedText st of
                        None \<Rightarrow> ms
                      | Some text \<Rightarrow> ms @ [\<lparr>role = assistant, content = text\<rparr>])
                     @ [\<lparr>role = system, content = formatResult rf summ parsed\<rparr>]))) \<and>
         (\<forall>e ms. outputSchema rf (Some v) = Inl e \<and> generateMessages g before run = Inr ms \<longrightarrow>
           generateMessages g (before @ st # rest) run = Inl e \<and>
           generateNextStep g (before @ st # rest) run = (Inl e, []))"
  using assms
  by (cases v)
     (simp_all add: generateNextStep_def generateMessages_step stepContent_def formatOutput_def
        split: sum.splits)

theorem generateMessages_formatted_step_witness:
  "state exStep = succeeded (Some (JArray [JNumber 42])) ''done'' \<and>
   getResultFormatter (resultFormatterRegistry (exGenerator (Inr ''search'') exFormatters))
     (stepType exStep) = Some exFormatter \<and>
   outputSchema exFormatter (Some (JArray [JNumber 42])) = Inr (Some (JArray [JNumber 42])) \<and>
   generateMessages (exGenerator (Inr ''search'') exFormatters) [exStep] exRun =
     Inr (initialMessages (exGenerator (Inr ''search'') exFormatters) exRun @
          [\<lparr>role = assistant, content = ''search''\<rparr>,
           \<lparr>role = system, content = ''done (formatted)''\<rparr>]) \<and>
   state exInvalidStep = succeeded (Some (JString ''oops'')) ''done'' \<and>
   outputSchema exFormatter (Some (JString ''oops'')) = Inl (Error ''invalid output'') \<and>
   generateMessages (exGenerator (Inr ''search'') exFormatters) [exInvalidStep] exRun =
     Inl (Error ''invalid output'') \<and>
   generateNextStep (exGenerator (Inr ''search'') exFormatters) [exInvalidStep] exRun =
     (Inl (Error ''invalid output''), [])"
proof -
  let ?g = "exGenerator (Inr ''search'') exFormatters"
  have a1: "state exStep = succeeded (Some (JArray [JNumber 42])) ''done''"
    by (simp add: exStep_def)
  have b1: "state exInvalidStep = succeeded (Some (JString ''oops'')) ''done''"
    by (simp add: exInvalidStep_def)
  have a2: "JArray [JNumber 42] \<noteq> JNull" and b2: "JString ''oops'' \<noteq> JNull" by simp_all
  have a3: "getResultFormatter (resultFormatterRegistry ?g) (stepType exStep) = Some exFormatter"
    by (simp add: getResultFormatter_def exGenerator_def exFormatters_def exStep_def)
  have b3: "getResultFormatter (resultFormatterRegistry ?g) (stepType exInvalidStep) = Some exFormatter"
    by (simp add: getResultFormatter_def exGenerator_def exFormatters_def exInvalidStep_def)
  have a4: "outputSchema exFormatter (Some (JArray [JNumber 42])) = Inr (Some (JArray [JNumber 42]))"
    by (simp add: exFormatter_def)
  have b4: "outputSchema exFormatter (Some (JString ''oops'')) = Inl (Error ''invalid output'')"
    by (simp add: exFormatter_def)
  have f: "formatResult exFormatter ''done'' (Some (JArray [JNumber 42])) = ''done (formatted)''"
    by (simp add: exFormatter_def)
  have t: "generatedText exStep = Some ''search''" by (simp add: exStep_def)
  have e: "generateMessages ?g [] exRun = Inr (initialMessages ?g exRun)"
    by (simp add: generateMessages_def)
  from generateMessages_formatted_step[OF a1 a2 a3, where before="[]" and rest="[]" and run=exRun] a4 e f t
  have A: "generateMessages ?g [exStep] exRun =
     Inr (initialMessages ?g exRun @
          [\<lparr>role = assistant, content = ''search''\<rparr>,
           \<lparr>role = system, content = ''done (formatted)''\<rparr>])"
    by (simp add: generateMessages_def)
  from generateMessages_formatted_step[OF b1 b2 b3, where before="[]" and rest="[]" and run=exRun] b4 e
  have B: "generateMessages ?g [exInvalidStep] exRun = Inl (Error ''invalid output'') \<and>
     generateNextStep ?g [exInvalidStep] exRun = (Inl (Error ''invalid output''), [])"
    by simp
  from a1 a3 a4 A b1 b4 B show ?thesis by simp
qed

section \<open>Step generation\<close>

text \<open>
  Claim C1. When the parser returns an action identifier and either the registry lookup
  fails or the handler's \<open>createStep\<close> fails, \<open>generateNextStep\<close> returns normally, with an
  error step whose generated text is the raw model text and whose state carries the
  captured failure.
\<close>

theorem generateNextStep_error_step:
  assumes "generateMessages g completedSteps run = Inr msgs"
    and "generateText (textGenerator g) msgs run = Inr text"
    and "parse (actionRegistry g) text = Inr actionParams"
    and "action actionParams = Some a"
    and "getAction (actionRegistry g) a = Inl err \<or>
         (\<exists>act. getAction (actionRegistry g) a = Inr act \<and> createStep act text actionParams = Inl err)"
  shows "fst (generateNextStep g completedSteps run) = Inr (ErrorStep text err) \<and>
         stepType (ErrorStep text err) = ''error'' \<and>
         generatedText (ErrorStep text err) = Some text \<and>
         state (ErrorStep text err) = failed (message err)"
  using assms
  by (auto simp: generateNextStep_def ErrorStep_def Let_def)

theorem generateNextStep_error_step_witness:
  "fst (generateNextStep (exGenerator (Inr ''fly'') exFormatters) [] exRun) =
     Inr \<lparr>stepType = ''error'', generatedText = Some ''fly'', state = failed ''unknown action''\<rparr> \<and>
   fst (generateNextStep (exGenerator (Inr ''broken'') exFormatters) [] exRun) =
     Inr \<lparr>stepType = ''error'', generatedText = Some ''broken'', state = failed ''boom''\<rparr>"
proof -
  let ?f = "exGenerator (Inr ''fly'') exFormatters"
  let ?b = "exGenerator (Inr ''broken'') exFormatters"
  have f1: "generateMessages ?f [] exRun = Inr (initialMessages ?f exRun)"
    and b1: "generateMessages ?b [] exRun = Inr (initialMessages ?b exRun)"
    by (simp_all add: generateMessages_def)
  have f2: "generateText (textGenerator ?f) (initialMessages ?f exRun) exRun = Inr ''fly''"
    and b2: "generateText (textGenerator ?b) (initialMessages ?b exRun) exRun = Inr ''broken''"
    by (simp_all add: exGenerator_def)
  have f3: "parse (actionRegistry ?f) ''fly'' = Inr \<lparr>action = Some ''fly'', freeText = [], parameters = []\<rparr>"
    and b3: "parse (actionRegistry ?b) ''broken'' = Inr \<lparr>action = Some ''broken'', freeText = [], parameters = []\<rparr>"
    by (simp_all add: exGenerator_def exRegistry_def exParse_def)
  have f4: "action \<lparr>action = Some ''fly'', freeText = [], parameters = []\<rparr> = Some ''fly''"
    and b4: "action \<lparr>action = Some ''broken'', freeText = [], parameters = []\<rparr> = Some ''broken''"
    by simp_all
  have f5: "getAction (actionRegistry ?f) ''fly'' = Inl (Error ''unknown action'') \<or>
      (\<exists>act. getAction (actionRegistry ?f) ''fly'' = Inr act \<and>
         createStep act ''fly'' \<lparr>action = Some ''fly'', freeText = [], parameters = []\<rparr>
           = Inl (Error ''unknown action''))"
    by (simp add: exGenerator_def exRegistry_def)
  have b5: "getAction (actionRegistry ?b) ''broken'' = Inl (Error ''boom'') \<or>
      (\<exists>act. getAction (actionRegistry ?b) ''broken'' = Inr act \<and>
         createStep act ''broken'' \<lparr>action = Some ''broken'', freeText = [], parameters = []\<rparr>
           = Inl (Error ''boom''))"
    by (simp add: exGenerator_def exRegistry_def exBrokenAction_def)
  from generateNextStep_error_step[OF f1 f2 f3 f4 f5] generateNextStep_error_step[OF b1 b2 b3 b4 b5]
  show ?thesis by (simp add: ErrorStep_def)
qed

text \<open>
  Claim C6. When the parser returns a record with no action identifier, the step returned
  is a thought step whose generated text is the raw model text and whose summary is the
  parser's free text.
\<close>

theorem generateNextStep_thought_step:
  assumes "generateMessages g completedSteps run = Inr msgs"
    and "generateText (textGenerator g) msgs run = Inr text"
    and "parse (actionRegistry g) text = Inr actionParams"
    and "action actionParams = None"
  shows "fst (generateNextStep g completedSteps run) =
           Inr (NoopStep ''thought'' text (freeText actionParams)) \<and>
         stepType (NoopStep ''thought'' text (freeText actionParams)) = ''thought'' \<and>
         generatedText (NoopStep ''thought'' text (freeText actionParams)) = Some text \<and>
         summary (state (NoopStep ''thought'' text (freeText actionParams))) = freeText actionParams"
  using assms
  by (simp add: generateNextStep_def NoopStep_def Let_def)

theorem generateNextStep_thought_step_witness:
  "fst (generateNextStep (exGenerator (Inr ''I should search for X first.'') exFormatters) [] exRun) =
     Inr \<lparr>stepType = ''thought'', generatedText = Some ''I should search for X first.'',
          state = succeeded None ''I should search for X first.''\<rparr>"
proof -
  let ?g = "exGenerator (Inr ''I should search for X first.'') exFormatters"
  let ?p = "\<lparr>action = None, freeText = ''I should search for X first.'', parameters = []\<rparr>"
  have h1: "generateMessages ?g [] exRun = Inr (initialMessages ?g exRun)"
    by (simp add: generateMessages_def)
  have h2: "generateText (textGenerator ?g) (initialMessages ?g exRun) exRun
              = Inr ''I should search for X first.''"
    by (simp add: exGenerator_def)
  have h3: "parse (actionRegistry ?g) ''I should search for X first.'' = Inr ?p"
    by (simp add: exGenerator_def exRegistry_def exParse_def)
  have h4: "action ?p = None" by simp
  from generateNextStep_thought_step[OF h1 h2 h3 h4] show ?thesis
    by (simp add: NoopStep_def)
qed

text \<open>
  Claim C3, as the specification states it, fails: with an observer attached and a text
  generator that rejects, the call reaches the model call, \<open>onStepGenerationStarted\<close> is
  invoked, and \<open>onStepGenerationFinished\<close> is never invoked.
\<close>

theorem generateNextStep_observer_hooks_counterexample:
  "observer exRun = Some Observer \<and>
   generateNextStep (exGenerator (Inl (Error ''backend'')) exFormatters) [] exRun =
     (Inl (Error ''backend''),
      [onStepGenerationStarted exRun
         (initialMessages (exGenerator (Inl (Error ''backend'')) exFormatters) exRun),
       generateTextCalled
         (initialMessages (exGenerator (Inl (Error ''backend'')) exFormatters) exRun) exRun]) \<and>
   finishedCalls (snd (generateNextStep (exGenerator (Inl (Error ''backend'')) exFormatters) [] exRun)) = 0"
  by code_simp

text \<open>
  Claim C3, amended. On a run with an attached observer whose transcript is built,
  \<open>onStepGenerationStarted\<close> is invoked exactly once, before the text generator. When the
  text generator returns a text and the parser a record, \<open>onStepGenerationFinished\<close> is
  invoked exactly once, after the model call and with the step that is returned, also when
  that step is an error step. When the text generator or the parser fails, the error
  propagates and \<open>onStepGenerationFinished\<close> is not invoked.
\<close>

theorem generateNextStep_observer_hooks:
  assumes "observer run = Some obs"
    and "generateMessages g completedSteps run = Inr msgs"
  shows "(\<forall>text actionParams.
            generateText (textGenerator g) msgs run = Inr text \<and>
            parse (actionRegistry g) text = Inr actionParams \<longrightarrow>
            (\<exists>st. generateNextStep g completedSteps run =
               (Inr st, [onStepGenerationStarted run msgs,
                         generateTextCalled msgs run,
                         onStepGenerationFinished run text st]))) \<and>
         (\<forall>text actionParams a err.
            generateText (textGenerator g) msgs run = Inr text \<and>
            parse (actionRegistry g) text = Inr actionParams \<and>
            action actionParams = Some a \<and> getAction (actionRegistry g) a = Inl err \<longrightarrow>
            generateNextStep g completedSteps run =
               (Inr (ErrorStep text err),
                [onStepGenerationStarted run msgs,
                 generateTextCalled msgs run,
                 onStepGenerationFinished run text (ErrorStep text err)])) \<and>
         (\<forall>e. generateText (textGenerator g) msgs run = Inl e \<or>
              (\<exists>text. generateText (textGenerator g) msgs run = Inr text \<and>
                      parse (actionRegistry g) text = Inl e) \<longrightarrow>
            generateNextStep g completedSteps run =
               (Inl e, [onStepGenerationStarted run msgs, generateTextCalled msgs run]))"
  using assms
  by (auto simp: generateNextStep_def Let_def)

theorem generateNextStep_observer_hooks_witness:
  "observer exRun = Some Observer \<and>
   generateNextStep (exGenerator (Inr ''fly'') exFormatters) [] exRun =
     (Inr (ErrorStep ''fly'' (Error ''unknown action'')),
      [onStepGenerationStarted exRun (initialMessages (exGenerator (Inr ''fly'') exFormatters) exRun),
       generateTextCalled (initialMessages (exGenerator (Inr ''fly'') exFormatters) exRun) exRun,
       onStepGenerationFinished exRun ''fly'' (ErrorStep ''fly'' (Error ''unknown action''))]) \<and>
   generateNextStep (exGenerator (Inr ''garbage'') exFormatters) [] exRun =
     (Inl (Error ''unparseable''),
      [onStepGenerationStarted exRun (initialMessages (exGenerator (Inr ''garbage'') exFormatters) exRun),
       generateTextCalled (initialMessages (exGenerator (Inr ''garbage'') exFormatters) exRun) exRun])"
proof -
  let ?f = "exGenerator (Inr ''fly'') exFormatters"
  let ?b = "exGenerator (Inr ''garbage'') exFormatters"
  have o: "observer exRun = Some Observer" by (simp add: exRun_def)
  have f1: "generateMessages ?f [] exRun = Inr (initialMessages ?f exRun)"
    and b1: "generateMessages ?b [] exRun = Inr (initialMessages ?b exRun)"
    by (simp_all add: generateMessages_def)
  have f2: "generateText (textGenerator ?f) (initialMessages ?f exRun) exRun = Inr ''fly''"
    and b2: "generateText (textGenerator ?b) (initialMessages ?b exRun) exRun = Inr ''garbage''"
    by (simp_all add: exGenerator_def)
  have f3: "parse (actionRegistry ?f) ''fly'' = Inr \<lparr>action = Some ''fly'', freeText = [], parameters = []\<rparr>"
    and b3: "parse (actionRegistry ?b) ''garbage'' = Inl (Error ''unparseable'')"
    by (simp_all add: exGenerator_def exRegistry_def exParse_def)
  have f4: "getAction (actionRegistry ?f) ''fly'' = Inl (Error ''unknown action'')"
    by (simp add: exGenerator_def exRegistry_def)
  from generateNextStep_observer_hooks[OF o f1] f2 f3 f4
  have F: "generateNextStep ?f [] exRun =
     (Inr (ErrorStep ''fly'' (Error ''unknown action'')),
      [onStepGenerationStarted exRun (initialMessages ?f exRun),
       generateTextCalled (initialMessages ?f exRun) exRun,
       onStepGenerationFinished exRun ''fly'' (ErrorStep ''fly'' (Error ''unknown action''))])"
    by simp
  from generateNextStep_observer_hooks[OF o b1] b2 b3
  have B: "generateNextStep ?b [] exRun =
     (Inl (Error ''unparseable''),
      [onStepGenerationStarted exRun (initialMessages ?b exRun),
       generateTextCalled (initialMessages ?b exRun) exRun])"
    by simp
  from o F B show ?thesis by simp
qed

section \<open>Construction\<close>

text \<open>
  Claim C8. If the role, the constraints, the action registry or the text generator is
  missing, the constructor throws, so that no instance exists on which
  \<open>generateNextStep\<close> could be called. If the four are present and the formatter registry
  is omitted, the constructor returns an instance whose formatter registry is empty.
\<close>

theorem constructor_required_arguments:
  "(role' = None \<or> constraints' = None \<or> actionRegistry' = None \<or> textGenerator' = None \<longrightarrow>
      (\<exists>msg. constructor role' constraints' actionRegistry' textGenerator' formatters' = Inl (Error msg))) \<and>
   (\<exists>g. constructor (Some r) (Some c) (Some a) (Some t) None = Inr g \<and>
        resultFormatterRegistry g = newResultFormatterRegistry \<and>
        (\<forall>type. getResultFormatter (resultFormatterRegistry g) type = None))"
  by (auto simp: constructor_def newResultFormatterRegistry_def getResultFormatter_def
           split: option.splits)

theorem constructor_required_arguments_witness:
  "constructor None (Some ''Be concise'') (Some exRegistry)
     (Some \<lparr>generateText = (\<lambda>messages run. Inr ''search'')\<rparr>) None = Inl (Error ''role is required'') \<and>
   constructor (Some ''Researcher'') (Some ''Be concise'') (Some exRegistry) None None
     = Inl (Error ''textGenerator is required'') \<and>
   (\<exists>g. constructor (Some ''Researcher'') (Some ''Be concise'') (Some exRegistry)
          (Some \<lparr>generateText = (\<lambda>messages run. Inr ''search'')\<rparr>) None = Inr g \<and>
        getResultFormatter (resultFormatterRegistry g) ''search'' = None)"
proof -
  let ?t = "\<lparr>generateText = (\<lambda>messages run. Inr ''search'')\<rparr>"
  from constructor_required_arguments[where role'=None and constraints'="Some ''Be concise''"
      and actionRegistry'="Some exRegistry" and textGenerator'="Some ?t" and formatters'=None
      and r="''Researcher''" and c="''Be concise''" and a=exRegistry and t="?t"]
  have A: "\<exists>msg. constructor None (Some ''Be concise'') (Some exRegistry) (Some ?t) None = Inl (Error msg)"
    and C: "\<exists>g. constructor (Some ''Researcher'') (Some ''Be concise'') (Some exRegistry) (Some ?t) None = Inr g \<and>
        getResultFormatter (resultFormatterRegistry g) ''search'' = None"
    by auto
  from constructor_required_arguments[where role'="Some ''Researcher''" and constraints'="Some ''Be concise''"
      and actionRegistry'="Some exRegistry" and textGenerator'=None and formatters'=None]
  have B: "\<exists>msg. constructor (Some ''Researcher'') (Some ''Be concise'') (Some exRegistry) None None = Inl (Error msg)"
    by simp
  have A': "constructor None (Some ''Be concise'') (Some exRegistry) (Some ?t) None = Inl (Error ''role is required'')"
    using A by (simp add: constructor_def)
  have B': "constructor (Some ''Researcher'') (Some ''Be concise'') (Some exRegistry) None None
     = Inl (Error ''textGenerator is required'')"
    using B by (simp add: constructor_def)
  from A' B' C show ?thesis by simp
qed

text \<open>
  Claim C9. The constructor rejects missing arguments only: with any role and
  constraints that are strings, the empty string included, and a registry and a text
  generator present, it returns the instance; it throws exactly when one of the four
  required arguments is missing.
\<close>

theorem constructor_accepts_empty_strings:
  "constructor (Some r) (Some c) (Some a) (Some t) formatters' =
     Inr \<lparr>gRole = r, constraints = c, actionRegistry = a, textGenerator = t,
          resultFormatterRegistry =
            (case formatters' of None \<Rightarrow> newResultFormatterRegistry | Some f \<Rightarrow> f)\<rparr> \<and>
   constructor (Some []) (Some []) (Some a) (Some t) formatters' =
     Inr \<lparr>gRole = [], constraints = [], actionRegistry = a, textGenerator = t,
          resultFormatterRegistry =
            (case formatters' of None \<Rightarrow> newResultFormatterRegistry | Some f \<Rightarrow> f)\<rparr> \<and>
   ((\<exists>e. constructor role' constraints' actionRegistry' textGenerator' formatters' = Inl e) =
      (role' = None \<or> constraints' = None \<or> actionRegistry' = None \<or> textGenerator' = None))"
  by (auto simp: constructor_def split: option.splits)

theorem constructor_accepts_empty_strings_witness:
  "constructor (Some []) (Some '' '') (Some exRegistry)
     (Some \<lparr>generateText = (\<lambda>messages run. Inr ''search'')\<rparr>) (Some exFormatters) =
     Inr \<lparr>gRole = [], constraints = '' '', actionRegistry = exRegistry,
          textGenerator = \<lparr>generateText = (\<lambda>messages run. Inr ''search'')\<rparr>,
          resultFormatterRegistry = exFormatters\<rparr>"
  using constructor_accepts_empty_strings[where r="[]" and c="'' ''" and a=exRegistry
      and t="\<lparr>generateText = (\<lambda>messages run. Inr ''search'')\<rparr>" and formatters'="Some exFormatters"]
  by simp

section \<open>Frame of transcript construction\<close>

text \<open>
  Claim C10. \<open>generateMessages\<close> leaves the array of completed steps with every step in
  it, the run, and every message array that existed before unchanged, whether it returns
  or throws. What it returns is the address of an array allocated by the call, and that
  array holds the transcript.
\<close>

theorem generateMessages_frame:
  assumes "generateMessagesAt g \<sigma> = (r, \<sigma>')"
  shows "completedStepsArray \<sigma>' = completedStepsArray \<sigma> \<and>
         runObject \<sigma>' = runObject \<sigma> \<and>
         take (length (messageArrays \<sigma>)) (messageArrays \<sigma>') = messageArrays \<sigma> \<and>
         length (messageArrays \<sigma>') = Suc (length (messageArrays \<sigma>)) \<and>
         (case r of
            Inl e \<Rightarrow> generateMessages g (completedStepsArray \<sigma>) (runObject \<sigma>) = Inl e
          | Inr a \<Rightarrow> a = length (messageArrays \<sigma>) \<and>
                    generateMessages g (completedStepsArray \<sigma>) (runObject \<sigma>)
                      = Inr (messageArrays \<sigma>' ! a))"
proof -
  define a where "a = length (messageArrays \<sigma>)"
  define \<sigma>1 where "\<sigma>1 = \<sigma>\<lparr>messageArrays := messageArrays \<sigma> @ [initialMessages g (runObject \<sigma>)]\<rparr>"
  obtain r' \<sigma>2 where run: "pushStepsAt g a 0 \<sigma>1 = (r', \<sigma>2)"
    by (cases "pushStepsAt g a 0 \<sigma>1")
  have a1: "a < length (messageArrays \<sigma>1)" by (simp add: a_def \<sigma>1_def)
  note fr = pushStepsAt_frame[OF a1 run]
  have res: "r = (case r' of Some e \<Rightarrow> Inl e | None \<Rightarrow> Inr a)" "\<sigma>' = \<sigma>2"
    using assms run
    by (auto simp: generateMessagesAt_def allocate_def a_def[symmetric] \<sigma>1_def[symmetric]
             split: option.splits)
  have old: "take (length (messageArrays \<sigma>)) (messageArrays \<sigma>2) = messageArrays \<sigma>"
  proof (rule nth_equalityI)
    show "length (take (length (messageArrays \<sigma>)) (messageArrays \<sigma>2)) = length (messageArrays \<sigma>)"
      using fr by (simp add: \<sigma>1_def)
  next
    fix b assume "b < length (take (length (messageArrays \<sigma>)) (messageArrays \<sigma>2))"
    then have b: "b < length (messageArrays \<sigma>)" by simp
    then have "b \<noteq> a" by (simp add: a_def)
    with fr have "messageArrays \<sigma>2 ! b = messageArrays \<sigma>1 ! b" by simp
    with b show "take (length (messageArrays \<sigma>)) (messageArrays \<sigma>2) ! b = messageArrays \<sigma> ! b"
      by (simp add: \<sigma>1_def nth_append)
  qed
  have init: "messageArrays \<sigma>1 ! a = initialMessages g (runObject \<sigma>)"
    "completedStepsArray \<sigma>1 = completedStepsArray \<sigma>" "runObject \<sigma>1 = runObject \<sigma>"
    "length (messageArrays \<sigma>1) = Suc (length (messageArrays \<sigma>))"
    by (simp_all add: a_def \<sigma>1_def)
  show ?thesis
    using fr old init res
    by (cases r') (simp_all add: generateMessages_def a_def)
qed

theorem generateMessages_frame_witness:
  "generateMessagesAt (exGenerator (Inr ''search'') exFormatters) exStore =
     (Inr 1, exStore\<lparr>messageArrays :=
        [[\<lparr>role = user, content = ''earlier''\<rparr>],
         [\<lparr>role = system, content = ''## ROLE\<newline>Researcher\<newline>\<newline>## CONSTRAINTS\<newline>Be concise;\<newline>\<newline>## AVAILABLE ACTIONS\<newline>search: find pages''\<rparr>,
          \<lparr>role = user, content = ''## TASK\<newline>Find X''\<rparr>,
          \<lparr>role = assistant, content = ''search''\<rparr>,
          \<lparr>role = system, content = ''done (formatted)''\<rparr>,
          \<lparr>role = system, content = ''ERROR:\<newline>unknown action''\<rparr>]]\<rparr>) \<and>
   generateMessages (exGenerator (Inr ''search'') exFormatters) [exStep, exFailedStep] exRun =
     Inr [\<lparr>role = system, content = ''## ROLE\<newline>Researcher\<newline>\<newline>## CONSTRAINTS\<newline>Be concise;\<newline>\<newline>## AVAILABLE ACTIONS\<newline>search: find pages''\<rparr>,
          \<lparr>role = user, content = ''## TASK\<newline>Find X''\<rparr>,
          \<lparr>role = assistant, content = ''search''\<rparr>,
          \<lparr>role = system, content = ''done (formatted)''\<rparr>,
          \<lparr>role = system, content = ''ERROR:\<newline>unknown action''\<rparr>]"
proof -
  have h: "generateMessagesAt (exGenerator (Inr ''search'') exFormatters) exStore =
     (Inr 1, exStore\<lparr>messageArrays :=
        [[\<lparr>role = user, content = ''earlier''\<rparr>],
         [\<lparr>role = system, content = ''## ROLE\<newline>Researcher\<newline>\<newline>## CONSTRAINTS\<newline>Be concise;\<newline>\<newline>## AVAILABLE ACTIONS\<newline>search: find pages''\<rparr>,
          \<lparr>role = user, content = ''## TASK\<newline>Find X''\<rparr>,
          \<lparr>role = assistant, content = ''search''\<rparr>,
          \<lparr>role = system, content = ''done (formatted)''\<rparr>,
          \<lparr>role = system, content = ''ERROR:\<newline>unknown action''\<rparr>]]\<rparr>)"
    by code_simp
  from generateMessages_frame[OF h] h show ?thesis
    by (simp add: exStore_def)
qed

end
